theory Spec2Isabelle
  imports Main "HOL-Library.Word"
begin

unbundle bit_operations_syntax

section \<open>Common notions\<close>

text \<open>
  The library under study is the gateway client whose \<open>Client\<close> class is the file
  \<open>src/unnamed/part_000\<close>; two of its entity classes (\<open>GroupChannel\<close>, \<open>Member\<close>) are
  embedded in \<open>src/mafiaBot-master/updates/RMBv1.js\<close>. Its modules \<open>Shard\<close>,
  \<open>Collection\<close>, \<open>RequestHandler\<close>, \<open>VoiceConnectionManager\<close> and \<open>Constants\<close> are
  required by the sources but are not among them.
\<close>

text \<open>A JavaScript exception value: \<open>new Error(msg)\<close> or a \<open>TypeError\<close> of the runtime.\<close>

datatype error = Error string | TypeError string

text \<open>A synchronous call either throws or returns.\<close>

datatype 'a completion = Throws error | Returns 'a

text \<open>
  The promise handed to a caller: already resolved, already rejected, or waiting for the
  \<open>ready\<close>/\<open>disconnect\<close> event of the object it carries.
\<close>

datatype 'a promise = Resolved 'a | Rejected error | Pending 'a

section \<open>Voice connections\<close>

datatype phase = Idle | Connecting | Ready | Disconnected

record VoiceConnection =
  vc_handle :: nat
  vc_phase :: phase

text \<open>
  The manager: the state of each target key, the voice-state updates it has sent through
  the owning shard (one per handshake attempt, by target key, oldest first) and the next
  unused object identity.
\<close>

record VoiceConnectionManager =
  vcm_states :: "string \<rightharpoonup> VoiceConnection"
  vcm_handshakes :: "string list"
  vcm_next :: nat

definition VoiceConnectionManager_start ::
  "string \<Rightarrow> VoiceConnectionManager \<Rightarrow> VoiceConnection \<times> VoiceConnectionManager" where
  "VoiceConnectionManager_start key m =
     (let st = \<lparr>vc_handle = vcm_next m, vc_phase = Connecting\<rparr>
      in (st, m\<lparr>vcm_states := (vcm_states m)(key \<mapsto> st),
                 vcm_handshakes := vcm_handshakes m @ [key],
                 vcm_next := Suc (vcm_next m)\<rparr>))"

text \<open>
  Modelled from the spec: \<open>VoiceConnectionManager.join\<close> (\<open>voice/VoiceConnectionManager\<close> is
  not among the sources). Section 4.5: if a state already exists for the target key and is
  Ready, return it immediately; if Connecting, return the same in-flight handle rather than
  starting a second handshake; otherwise create a new state in Connecting and send a
  voice-state update for the key through the owning shard. The spec names no synchronous
  failure of \<open>join\<close>, so the model always returns.
\<close>

definition VoiceConnectionManager_join ::
  "string \<Rightarrow> VoiceConnectionManager \<Rightarrow> (VoiceConnection \<times> VoiceConnectionManager) completion" where
  "VoiceConnectionManager_join key m =
     (case vcm_states m key of
        None \<Rightarrow> Returns (VoiceConnectionManager_start key m)
      | Some st \<Rightarrow>
          if vc_phase st = Ready then Returns (st, m)
          else if vc_phase st = Connecting then Returns (st, m)
          else Returns (VoiceConnectionManager_start key m))"

section \<open>Channels and the permission guard\<close>

text \<open>
  What \<open>joinVoiceChannel\<close> reads of a channel: its \<open>guild\<close> property (present on guild
  channels only) and \<open>permissionsOf(userID).allow\<close>, a number. \<open>GuildChannel\<close> is not among
  the sources, so the permission bit field is data of the channel here.
\<close>

record Channel =
  channel_guild :: "string option"
  permissionsOf_allow :: "string \<Rightarrow> int"

record Guild =
  guild_channels :: "string \<rightharpoonup> Channel"

text \<open>
  The expression \<open>!channel.permissionsOf(this.user.id).allow & Constants.Permissions.voiceConnect\<close>.
  Unary \<open>!\<close> binds tighter than \<open>&\<close>: the number \<open>allow\<close> is negated to a boolean first
  (\<open>true\<close> exactly for 0), the boolean is converted to the 32-bit integer 1 or 0, and that
  is ANDed with the constant (\<open>Constants\<close> is not among the sources: the constant, as the
  32-bit integer \<open>&\<close> sees, is a parameter).
\<close>

definition js_not :: "int \<Rightarrow> bool" where
  "js_not n = (n = 0)"

definition ToInt32_bool :: "bool \<Rightarrow> 32 word" where
  "ToInt32_bool b = (if b then 1 else 0)"

definition permission_guard :: "32 word \<Rightarrow> int \<Rightarrow> 32 word" where
  "permission_guard voiceConnect allow = ToInt32_bool (js_not allow) AND voiceConnect"

section \<open>Collections\<close>

text \<open>
  \<open>Collection\<close> extends the insertion-ordered \<open>Map\<close>: here a list of key/value pairs,
  oldest first, in which \<open>get\<close> returns the first entry of a key. An object stored in a
  collection is referred to by its key; mutating it in place is \<open>Collection_modify\<close>.
\<close>

type_synonym ('k, 'e) Collection = "('k \<times> 'e) list"

definition Collection_get :: "('k, 'e) Collection \<Rightarrow> 'k \<Rightarrow> 'e option" where
  "Collection_get coll k = map_of coll k"

fun Collection_modify :: "'k \<Rightarrow> ('e \<Rightarrow> 'e) \<Rightarrow> ('k, 'e) Collection \<Rightarrow> ('k, 'e) Collection" where
  "Collection_modify k f [] = []"
| "Collection_modify k f ((k', e) # rest) =
     (if k' = k then (k', f e) # rest else (k', e) # Collection_modify k f rest)"

text \<open>
  Modelled from the spec: \<open>Collection.find\<close> (\<open>util/Collection\<close> is not among the sources).
  Section 4.4 lists \<open>find(predicate)\<close>: the first stored entity satisfying the predicate, or
  nothing.
\<close>

definition Collection_find :: "('e \<Rightarrow> bool) \<Rightarrow> ('k, 'e) Collection \<Rightarrow> 'e option" where
  "Collection_find P coll = find P (map snd coll)"


section \<open>JavaScript values\<close>

text \<open>
  The values an argument or a property can hold: \<open>undefined\<close>, \<open>null\<close>, booleans, numbers
  (integers here), strings and plain objects (a list of properties, first entry of a name
  wins). Strings are lists of 8-bit characters; a code unit above ASCII is its UTF-8 bytes.
\<close>

datatype jsval =
    JUndefined
  | JNull
  | JBoolean bool
  | JNumber int
  | JString string
  | JObject "(string \<times> jsval) list"

fun typeof :: "jsval \<Rightarrow> string" where
  "typeof JUndefined = ''undefined''"
| "typeof JNull = ''object''"
| "typeof (JBoolean b) = ''boolean''"
| "typeof (JNumber n) = ''number''"
| "typeof (JString s) = ''string''"
| "typeof (JObject ps) = ''object''"

fun truthy :: "jsval \<Rightarrow> bool" where
  "truthy JUndefined = False"
| "truthy JNull = False"
| "truthy (JBoolean b) = b"
| "truthy (JNumber n) = (n \<noteq> 0)"
| "truthy (JString s) = (s \<noteq> [])"
| "truthy (JObject ps) = True"

text \<open>\<open>a || b\<close>: the left operand if it is truthy, else the right one.\<close>

definition js_or :: "jsval \<Rightarrow> jsval \<Rightarrow> jsval" where
  "js_or a b = (if truthy a then a else b)"

text \<open>Decimal rendering of a number, most significant digit first.\<close>

definition digit_char :: "nat \<Rightarrow> char" where
  "digit_char d = char_of (d + 48)"

fun Number_digits :: "nat \<Rightarrow> string" where
  "Number_digits n =
     (if 10 \<le> n then Number_digits (n div 10) @ [digit_char (n mod 10)] else [digit_char n])"

definition Number_toString :: "int \<Rightarrow> string" where
  "Number_toString i =
     (if 0 \<le> i then Number_digits (nat i) else CHR ''-'' # Number_digits (nat \<bar>i\<bar>))"

text \<open>
  The string conversion of \<open>"" + v\<close> and of \<open>v.toString()\<close>; a plain object renders as
  \<open>[object Object]\<close>.
\<close>

fun ToString :: "jsval \<Rightarrow> string" where
  "ToString JUndefined = ''undefined''"
| "ToString JNull = ''null''"
| "ToString (JBoolean b) = (if b then ''true'' else ''false'')"
| "ToString (JNumber n) = Number_toString n"
| "ToString (JString s) = s"
| "ToString (JObject ps) = ''[object Object]''"

text \<open>Reading a property of an object: \<open>undefined\<close> when it is absent.\<close>

definition js_get :: "(string \<times> jsval) list \<Rightarrow> string \<Rightarrow> jsval" where
  "js_get ps name = (case map_of ps name of None \<Rightarrow> JUndefined | Some v \<Rightarrow> v)"

text \<open>Assigning a property: in place when the object has it, appended otherwise.\<close>

fun js_set :: "string \<Rightarrow> jsval \<Rightarrow> (string \<times> jsval) list \<Rightarrow> (string \<times> jsval) list" where
  "js_set name v [] = [(name, v)]"
| "js_set name v ((n, w) # ps) = (if n = name then (n, v) # ps else (n, w) # js_set name v ps)"

text \<open>\<open>s.replace(/pat/g, rep)\<close> for a literal pattern: every occurrence, left to right.\<close>

fun replace_all :: "string \<Rightarrow> string \<Rightarrow> string \<Rightarrow> string" where
  "replace_all pat rep [] = []"
| "replace_all pat rep (c # cs) =
     (if pat \<noteq> [] \<and> take (length pat) (c # cs) = pat
      then rep @ replace_all pat rep (drop (length pat) (c # cs))
      else c # replace_all pat rep cs)"

section \<open>REST requests\<close>

text \<open>
  \<open>Constants.Endpoints\<close> is not among the sources: an endpoint is the name of its builder
  with the arguments the client passes.
\<close>

datatype endpoint =
    GATEWAY
  | CHANNEL_MESSAGES string
  | CHANNEL_MESSAGE string string
  | CHANNEL_BULK_DELETE string

datatype body = NoBody | Messages "string list" | Content "(string \<times> jsval) list"

record request =
  req_method :: string
  req_endpoint :: endpoint
  req_auth :: bool
  req_body :: body
  req_file :: "string option"

section \<open>The client\<close>

text \<open>Of a shard, the client reads the \<open>connecting\<close> flag.\<close>

record Shard =
  connecting :: bool

record ClientOptions =
  firstShardID :: int
  lastShardID :: int
  gatewayVersion :: nat
  opt_disableEveryone :: bool

record Client =
  options :: ClientOptions
  gatewayURL :: "string option"
  lastReadyPacket :: int
  connectQueue :: "int list"
  connectTimeout :: "int option"
  shards :: "(int, Shard) Collection"
  channelGuildMap :: "string \<rightharpoonup> string"
  guilds :: "string \<rightharpoonup> Guild"
  privateChannels :: "string \<rightharpoonup> Channel"
  groupChannels :: "string \<rightharpoonup> Channel"
  user :: "string option"
  voiceConnections :: VoiceConnectionManager

text \<open>
  The constructor, for the fields above: no gateway URL, \<open>lastReadyPacket = 0\<close>, an empty
  connect queue, no timer, empty collections and maps, no user yet.
\<close>

definition Client_new :: "ClientOptions \<Rightarrow> Client" where
  "Client_new opts =
     \<lparr>options = opts, gatewayURL = None, lastReadyPacket = 0, connectQueue = [],
      connectTimeout = None, shards = [], channelGuildMap = Map.empty, guilds = Map.empty,
      privateChannels = Map.empty, groupChannels = Map.empty, user = None,
      voiceConnections = \<lparr>vcm_states = Map.empty, vcm_handshakes = [], vcm_next = 0\<rparr>\<rparr>"

subsection \<open>getGateway\<close>

definition endsWith_slash :: "string \<Rightarrow> bool" where
  "endsWith_slash s = (s \<noteq> [] \<and> last s = CHR ''/'')"

definition gateway_of_url :: "nat \<Rightarrow> string \<Rightarrow> string" where
  "gateway_of_url version url =
     (let u1 = (if CHR ''?'' \<in> set url then takeWhile (\<lambda>c. c \<noteq> CHR ''?'') url else url);
          u2 = (if \<not> endsWith_slash u1 then u1 @ ''/'' else u1)
      in u2 @ ''?encoding=json&v='' @ Number_digits version)"

text \<open>
  \<open>getGateway\<close> is asynchronous. The call reads \<open>gatewayURL\<close>: when it holds a URL the
  promise returned is already resolved with it and nothing is requested; otherwise a
  request is issued and the promise waits for its answer. The call itself changes nothing
  in the client. \<open>gatewayURL\<close> is written later, by the \<open>then\<close> callback, when the answer to
  the request arrives; until then other code runs, further calls among it.
\<close>

definition gateway_request :: request where
  "gateway_request =
     \<lparr>req_method = ''GET'', req_endpoint = GATEWAY, req_auth = False, req_body = NoBody,
      req_file = None\<rparr>"

datatype gateway_promise = Gateway_resolved string | Gateway_pending request

text \<open>The call: the promise returned and the requests issued.\<close>

definition getGateway :: "Client \<Rightarrow> gateway_promise \<times> request list" where
  "getGateway c =
     (case gatewayURL c of
        None \<Rightarrow> (Gateway_pending gateway_request, [gateway_request])
      | Some url \<Rightarrow>
          if url \<noteq> [] then (Gateway_resolved url, [])
          else (Gateway_pending gateway_request, [gateway_request]))"

text \<open>
  The \<open>then\<close> callback, run on the data of a successful answer (its \<open>url\<close> property,
  absent or a string) in the state the client has at that time.
\<close>

definition getGateway_then :: "string option \<Rightarrow> Client \<Rightarrow> string promise \<times> Client" where
  "getGateway_then data_url c =
     (case data_url of
        None \<Rightarrow> (Rejected (Error ''Invalid response from gateway REST call''), c)
      | Some u \<Rightarrow>
          if u \<noteq> []
          then (let g = gateway_of_url (gatewayVersion (options c)) u
                in (Resolved g, c\<lparr>gatewayURL := Some g\<rparr>))
          else (Rejected (Error ''Invalid response from gateway REST call''), c))"

text \<open>
  The arrival of the answer to a gateway request, a rejection or data: how the waiting
  promise settles, and the client afterwards.
\<close>

definition getGateway_answer ::
  "(error + string option) \<Rightarrow> Client \<Rightarrow> string promise \<times> Client" where
  "getGateway_answer response c =
     (case response of
        Inl err \<Rightarrow> (Rejected err, c)
      | Inr data_url \<Rightarrow> getGateway_then data_url c)"





text \<open>
  A call of \<open>getGateway\<close> taken together with the arrival of its answer, nothing happening
  in between: \<open>response\<close> is the answer of the request, if one is issued. This is the
  promise on which \<open>Client.connect\<close> chains its loop.
\<close>

definition getGateway_settled ::
  "(error + string option) \<Rightarrow> Client \<Rightarrow> (string promise \<times> request list) \<times> Client" where
  "getGateway_settled response c =
     (case getGateway c of
        (Gateway_resolved url, reqs) \<Rightarrow> ((Resolved url, reqs), c)
      | (Gateway_pending rq, reqs) \<Rightarrow>
          (let (p, c1) = getGateway_answer response c in ((p, reqs), c1)))"

subsection \<open>The connect queue\<close>

text \<open>
  Modelled from the spec: \<open>new Shard\<close>, \<open>Shard.connect\<close>, \<open>Shard.disconnect\<close> and the end of
  a connection attempt (\<open>gateway/Shard\<close> is not among the sources). Section 4.2: a shard
  starts Disconnected; Connecting is entered only when the connect queue grants it, by the
  call of \<open>connect()\<close>; the shard leaves Connecting when the attempt succeeds or fails, and
  any state may go to Disconnected. The client observes the phase as the \<open>connecting\<close> flag.
\<close>

definition Shard_new :: Shard where
  "Shard_new = \<lparr>connecting = False\<rparr>"

definition Shard_connect :: "Shard \<Rightarrow> Shard" where
  "Shard_connect sh = sh\<lparr>connecting := True\<rparr>"

definition Shard_settled :: "Shard \<Rightarrow> Shard" where
  "Shard_settled sh = sh\<lparr>connecting := False\<rparr>"

definition Shard_disconnect :: "Shard \<Rightarrow> Shard" where
  "Shard_disconnect sh = sh\<lparr>connecting := False\<rparr>"

text \<open>
  What the queue code does to shards, in order: a call of a shard's \<open>connect()\<close> (an
  admission: by which path, on which shard, and the value of \<open>Date.now()\<close> at the call), or
  a push of a shard on \<open>connectQueue\<close>.
\<close>

datatype path = Bypass | FromQueue

datatype action = Admitted path int int | Queued int int

fun is_admission :: "action \<Rightarrow> bool" where
  "is_admission (Admitted p sid t) = True"
| "is_admission (Queued sid t) = False"

fun action_time :: "action \<Rightarrow> int" where
  "action_time (Admitted p sid t) = t"
| "action_time (Queued sid t) = t"

definition admission_times :: "action list \<Rightarrow> int list" where
  "admission_times log = map action_time (filter is_admission log)"

text \<open>The shards admitted from the queue, and the shards pushed on it, in order.\<close>

fun from_queue :: "action list \<Rightarrow> int list" where
  "from_queue [] = []"
| "from_queue (Admitted FromQueue sid t # log) = sid # from_queue log"
| "from_queue (a # log) = from_queue log"

fun pushed :: "action list \<Rightarrow> int list" where
  "pushed [] = []"
| "pushed (Queued sid t # log) = sid # pushed log"
| "pushed (a # log) = pushed log"

text \<open>
  \<open>tryConnect\<close> arms the timer unless one is pending. The handle kept in \<open>connectTimeout\<close>
  is the time at which the timer is due.
\<close>

definition tryConnect :: "int \<Rightarrow> Client \<Rightarrow> Client" where
  "tryConnect now c =
     (case connectTimeout c of
        None \<Rightarrow>
          c\<lparr>connectTimeout := Some (now + min (max 250 (now - 5250 - lastReadyPacket c)) 5250)\<rparr>
      | Some due \<Rightarrow> c)"

definition queueConnect :: "int \<Rightarrow> int \<Rightarrow> Client \<Rightarrow> Client \<times> action list" where
  "queueConnect now sid c =
     (if lastReadyPacket c \<le> now - 5250 \<and> Collection_find connecting (shards c) = None
      then (c\<lparr>shards := Collection_modify sid Shard_connect (shards c)\<rparr>,
            [Admitted Bypass sid now])
      else (tryConnect now (c\<lparr>connectQueue := connectQueue c @ [sid]\<rparr>), [Queued sid now]))"

text \<open>The function given to \<open>setTimeout\<close> in \<open>tryConnect\<close>, run at time \<open>now\<close>.\<close>

definition connectTimeout_callback :: "int \<Rightarrow> Client \<Rightarrow> Client \<times> action list" where
  "connectTimeout_callback now c =
     (let (c1, adm) =
            (if connectQueue c \<noteq> [] \<and> lastReadyPacket c \<le> now - 5250
                \<and> Collection_find connecting (shards c) = None
             then (c\<lparr>connectQueue := tl (connectQueue c),
                      shards := Collection_modify (hd (connectQueue c)) Shard_connect (shards c),
                      lastReadyPacket := lastReadyPacket c + 5250\<rparr>,
                   [Admitted FromQueue (hd (connectQueue c)) now])
             else (c, []));
          c2 = c1\<lparr>connectTimeout := None\<rparr>
      in (if connectQueue c2 \<noteq> [] then tryConnect now c2 else c2, adm))"

text \<open>
  \<open>Client.connect\<close>, with the continuation it chains on \<open>getGateway()\<close>: after the gateway
  URL is resolved, every shard ID from
  \<open>firstShardID\<close> to \<open>lastShardID\<close> gets its shard (added to the collection when \<open>get\<close>
  finds none) and is passed to \<open>queueConnect\<close>. The loop runs within one turn; \<open>now\<close> is
  \<open>Date.now()\<close> during it.
\<close>

fun connect_loop :: "int \<Rightarrow> int list \<Rightarrow> Client \<Rightarrow> Client \<times> action list" where
  "connect_loop now [] c = (c, [])"
| "connect_loop now (i # rest) c =
     (let c1 = (case Collection_get (shards c) i of
                  None \<Rightarrow> c\<lparr>shards := shards c @ [(i, Shard_new)]\<rparr>
                | Some sh \<Rightarrow> c);
          (c2, adm) = queueConnect now i c1;
          (c3, adms) = connect_loop now rest c2
      in (c3, adm @ adms))"

definition connect ::
  "(error + string option) \<Rightarrow> int \<Rightarrow> Client
     \<Rightarrow> (unit promise \<times> request list) \<times> Client \<times> action list" where
  "connect response now c =
     (let ((p, reqs), c1) = getGateway_settled response c
      in case p of
           Resolved url \<Rightarrow>
             (let (c2, adm) =
                    connect_loop now [firstShardID (options c1)..lastShardID (options c1)] c1
              in ((Resolved (), reqs), c2, adm))
         | Rejected err \<Rightarrow> ((Rejected err, reqs), c1, [])
         | Pending url \<Rightarrow> ((Pending (), reqs), c1, []))"

text \<open>\<open>Client.disconnect\<close>: every shard is disconnected and the queue is emptied.\<close>

definition disconnect :: "Client \<Rightarrow> Client" where
  "disconnect c =
     c\<lparr>shards := map (\<lambda>(k, sh). (k, Shard_disconnect sh)) (shards c), connectQueue := []\<rparr>"

text \<open>
  What can happen to a client, one turn of the event loop each: \<open>connect()\<close> is called
  (with the answer of the gateway request, should it be issued), a shard asks for a
  connection through \<open>queueConnect\<close>, the timer of \<open>tryConnect\<close> fires (never before it is
  due), the connection attempt of a shard ends, \<open>disconnect()\<close> is called.
\<close>

datatype event =
    Connect "error + string option" int
  | QueueConnect int int
  | TimerFired int
  | ShardSettled int
  | Disconnect

fun exec :: "event \<Rightarrow> Client \<Rightarrow> Client \<times> action list" where
  "exec (Connect response now) c = (let (r, c', adm) = connect response now c in (c', adm))"
| "exec (QueueConnect now sid) c = queueConnect now sid c"
| "exec (TimerFired now) c =
     (case connectTimeout c of
        None \<Rightarrow> (c, [])
      | Some due \<Rightarrow> if due \<le> now then connectTimeout_callback now c else (c, []))"
| "exec (ShardSettled sid) c = (c\<lparr>shards := Collection_modify sid Shard_settled (shards c)\<rparr>, [])"
| "exec Disconnect c = (disconnect c, [])"

fun run :: "event list \<Rightarrow> Client \<Rightarrow> Client \<times> action list" where
  "run [] c = (c, [])"
| "run (e # es) c =
     (let (c1, adm) = exec e c; (c2, adms) = run es c1 in (c2, adm @ adms))"

text \<open>The number of shards of the client's collection whose \<open>connecting\<close> flag is set.\<close>

definition connecting_count :: "Client \<Rightarrow> nat" where
  "connecting_count c = length (filter connecting (map snd (shards c)))"

subsection \<open>joinVoiceChannel\<close>

definition getChannel :: "string \<Rightarrow> Client \<Rightarrow> Channel option completion" where
  "getChannel channelID c =
     (let other = (case privateChannels c channelID of
                     Some ch \<Rightarrow> Some ch
                   | None \<Rightarrow> groupChannels c channelID)
      in case channelGuildMap c channelID of
           None \<Rightarrow> Returns other
         | Some gid \<Rightarrow>
             if gid \<noteq> []
             then (case guilds c gid of
                     None \<Rightarrow> Throws (TypeError ''Cannot read property channels of undefined'')
                   | Some g \<Rightarrow> Returns (guild_channels g channelID))
             else Returns other)"

text \<open>
  The condition of the second \<open>if\<close> of \<open>joinVoiceChannel\<close>,
  \<open>channel.guild && (!allow & voiceConnect)\<close>: its truthiness, or the exception of reading
  \<open>this.user.id\<close> while there is no user.
\<close>

definition insufficient_permission :: "32 word \<Rightarrow> Channel \<Rightarrow> Client \<Rightarrow> bool completion" where
  "insufficient_permission voiceConnect ch c =
     (case channel_guild ch of
        None \<Rightarrow> Returns False
      | Some g \<Rightarrow>
          (case user c of
             None \<Rightarrow> Throws (TypeError ''Cannot read property id of undefined'')
           | Some uid \<Rightarrow>
               Returns (permission_guard voiceConnect (permissionsOf_allow ch uid) \<noteq> 0)))"

definition joinVoiceChannel ::
  "32 word \<Rightarrow> string \<Rightarrow> bool option \<Rightarrow> Client \<Rightarrow> VoiceConnection promise completion \<times> Client" where
  "joinVoiceChannel voiceConnect channelID waitForReady c =
     (case getChannel channelID c of
        Throws err \<Rightarrow> (Throws err, c)
      | Returns None \<Rightarrow> (Returns (Rejected (Error ''Channel not found'')), c)
      | Returns (Some ch) \<Rightarrow>
          (case insufficient_permission voiceConnect ch c of
             Throws err \<Rightarrow> (Throws err, c)
           | Returns True \<Rightarrow>
               (Returns (Rejected (Error ''Insufficient permission to connect to voice channel'')), c)
           | Returns False \<Rightarrow>
               (case VoiceConnectionManager_join channelID (voiceConnections c) of
                  Throws err \<Rightarrow> (Returns (Rejected err), c)
                | Returns (connection, m) \<Rightarrow>
                    (Returns (if waitForReady = Some False \<or> vc_phase connection = Ready
                              then Resolved connection else Pending connection),
                     c\<lparr>voiceConnections := m\<rparr>))))"

subsection \<open>createMessage\<close>

text \<open>The zero-width space U+200B, as UTF-8.\<close>

definition zwsp :: string where
  "zwsp = [char_of (226 :: nat), char_of (128 :: nat), char_of (139 :: nat)]"

definition filter_mentions :: "string \<Rightarrow> string" where
  "filter_mentions s =
     replace_all ''@here'' (''@'' @ zwsp @ ''here'')
       (replace_all ''@everyone'' (''@'' @ zwsp @ ''everyone'') s)"

text \<open>
  The first statement of \<open>createMessage\<close>: the \<open>content\<close> argument becomes an object whose
  \<open>content\<close> property is a string. Reading \<open>content.content\<close> of \<open>null\<close> (whose \<open>typeof\<close> is
  \<open>"object"\<close>) throws.
\<close>

definition normalize_content :: "jsval \<Rightarrow> (string \<times> jsval) list completion" where
  "normalize_content c =
     (if typeof c = ''string'' then Returns [(''content'', c)]
      else if typeof c \<noteq> ''object'' then Returns [(''content'', JString ([] @ ToString c))]
      else (case c of
              JObject ps \<Rightarrow>
                if js_get ps ''content'' = JUndefined
                then Returns [(''content'', JString ([] @ ToString c))]
                else if typeof (js_get ps ''content'') \<noteq> ''string''
                then Returns (js_set ''content''
                       (JString (ToString (js_or (js_get ps ''content'') (JString [])))) ps)
                else Returns ps
            | _ \<Rightarrow> Throws (TypeError ''Cannot read property content of null'')))"

text \<open>
  \<open>createMessage\<close>: what the call does (throws, or returns a promise: rejected at once, or
  waiting for the answer to the request it carries) and the requests it issues.
\<close>

definition createMessage ::
  "string \<Rightarrow> jsval \<Rightarrow> string option \<Rightarrow> Client \<Rightarrow> request promise completion \<times> request list" where
  "createMessage channelID c file cl =
     (case normalize_content c of
        Throws err \<Rightarrow> (Throws err, [])
      | Returns obj \<Rightarrow>
          if \<not> truthy (js_get obj ''content'') \<and> file = None
          then (Returns (Rejected (Error ''No content or file'')), [])
          else
            (let de = js_get obj ''disableEveryone'';
                 obj' = (if (if de \<noteq> JUndefined then truthy de else opt_disableEveryone (options cl))
                         then js_set ''content''
                                (JString (filter_mentions (ToString (js_get obj ''content'')))) obj
                         else obj);
                 rq = \<lparr>req_method = ''POST'', req_endpoint = CHANNEL_MESSAGES channelID,
                       req_auth = True, req_body = Content obj', req_file = file\<rparr>
             in (Returns (Pending rq), [rq])))"

subsection \<open>deleteMessages\<close>

text \<open>
  \<open>RequestHandler\<close> and the remote service are not among the sources: whether the
  \<open>k\<close>-th request of a run fails (and with what), how long its answer takes, and how late
  the timer after it fires, are parameters.
\<close>

record RequestEnv =
  fails :: "nat \<Rightarrow> request \<Rightarrow> error option"
  latency :: "nat \<Rightarrow> nat"
  timer_late :: "nat \<Rightarrow> nat"

definition request_result :: "RequestEnv \<Rightarrow> nat \<Rightarrow> request \<Rightarrow> unit promise" where
  "request_result env k rq = (case fails env k rq of None \<Rightarrow> Resolved () | Some err \<Rightarrow> Rejected err)"

definition bulk_delete :: "string \<Rightarrow> string list \<Rightarrow> request" where
  "bulk_delete channelID ids =
     \<lparr>req_method = ''POST'', req_endpoint = CHANNEL_BULK_DELETE channelID, req_auth = True,
      req_body = Messages ids, req_file = None\<rparr>"

definition delete_one :: "string \<Rightarrow> string \<Rightarrow> request" where
  "delete_one channelID messageID =
     \<lparr>req_method = ''DELETE'', req_endpoint = CHANNEL_MESSAGE channelID messageID,
      req_auth = True, req_body = NoBody, req_file = None\<rparr>"

text \<open>
  \<open>deleteMessage\<close> and \<open>deleteMessages\<close>, called at time \<open>now\<close> when \<open>k\<close> requests have been
  sent before: the promise returned to the caller, and every request sent with the time at
  which it is sent, in order. With more than 100 IDs the first 100 are spliced off and
  sent; when that request succeeds the \<open>then\<close> callback arms a timer of 1000 ms and returns
  nothing, so the promise resolves there; the timer's function calls \<open>deleteMessages\<close> on
  the rest and drops the promise of that call.
\<close>

definition deleteMessage ::
  "RequestEnv \<Rightarrow> nat \<Rightarrow> int \<Rightarrow> string \<Rightarrow> string \<Rightarrow> unit promise \<times> (int \<times> request) list" where
  "deleteMessage env k now channelID messageID =
     (request_result env k (delete_one channelID messageID),
      [(now, delete_one channelID messageID)])"

function deleteMessages ::
  "RequestEnv \<Rightarrow> nat \<Rightarrow> int \<Rightarrow> string \<Rightarrow> string list \<Rightarrow> unit promise \<times> (int \<times> request) list" where
  "deleteMessages env k now channelID messageIDs =
     (if length messageIDs = 0 then (Resolved (), [])
      else if length messageIDs = 1 then deleteMessage env k now channelID (messageIDs ! 0)
      else if length messageIDs > 100 then
        (let rq = bulk_delete channelID (take 100 messageIDs)
         in case fails env k rq of
              Some err \<Rightarrow> (Rejected err, [(now, rq)])
            | None \<Rightarrow>
                (Resolved (),
                 (now, rq) #
                 snd (deleteMessages env (Suc k)
                        (now + int (latency env k) + 1000 + int (timer_late env k))
                        channelID (drop 100 messageIDs))))
      else (request_result env k (bulk_delete channelID messageIDs),
            [(now, bulk_delete channelID messageIDs)]))"
  by pat_completeness auto
termination
  by (relation "measure (\<lambda>(env, k, now, channelID, messageIDs). length messageIDs)") auto

text \<open>The message IDs a request asks to delete.\<close>

definition request_ids :: "request \<Rightarrow> string list" where
  "request_ids rq =
     (case req_endpoint rq of
        CHANNEL_MESSAGE channelID messageID \<Rightarrow> [messageID]
      | _ \<Rightarrow> (case req_body rq of Messages ids \<Rightarrow> ids | _ \<Rightarrow> []))"

text \<open>Consecutive times of a list are at least \<open>d\<close> apart.\<close>

fun spaced :: "int \<Rightarrow> int list \<Rightarrow> bool" where
  "spaced d (a # b # rest) = (d \<le> b - a \<and> spaced d (b # rest))"
| "spaced d ts = True"

section \<open>Entities\<close>

subsection \<open>GroupChannel\<close>


record GroupChannel =
  gc_id :: string
  recipients :: "string list"
  name :: jsval
  ownerID :: jsval
  icon :: jsval



subsection \<open>Member\<close>








section \<open>Example values\<close>

text \<open>
  A client with one guild \<open>g1\<close> whose channel \<open>c1\<close> grants the user \<open>u1\<close> no permission
  at all, and shard IDs 0 and 1.
\<close>

definition example_channel :: Channel where
  "example_channel = \<lparr>channel_guild = Some ''g1'', permissionsOf_allow = (\<lambda>u. 0)\<rparr>"

definition example_options :: ClientOptions where
  "example_options =
     \<lparr>firstShardID = 0, lastShardID = 1, gatewayVersion = 6, opt_disableEveryone = True\<rparr>"

definition example_client :: Client where
  "example_client =
     (Client_new example_options)
       \<lparr>channelGuildMap := [''c1'' \<mapsto> ''g1''],
        guilds := [''g1'' \<mapsto> \<lparr>guild_channels = [''c1'' \<mapsto> example_channel]\<rparr>],
        user := Some ''u1''\<rparr>"



text \<open>
  Runs of the example client: \<open>connect()\<close>, \<open>disconnect()\<close> and \<open>connect()\<close> again 200 ms
  after the first; \<open>connect()\<close> followed by the end of shard 0's attempt; the latter
  followed by the timer firing when it is due.
\<close>

definition example_response :: "error + string option" where
  "example_response = Inr (Some ''wss://gateway.example'')"

definition reconnect_events :: "event list" where
  "reconnect_events =
     [Connect example_response 1500000000000, Disconnect, Connect example_response 1500000000200]"

definition overtaking_events :: "event list" where
  "overtaking_events = [Connect example_response 1500000000000, ShardSettled 0]"

definition fifo_events :: "event list" where
  "fifo_events =
     [Connect example_response 1500000000000, ShardSettled 0, TimerFired 1500000005250]"

text \<open>
  Bulk deletion of 250 message IDs, against a service whose second request fails and
  against one that never fails; an answer takes 40 ms.
\<close>

definition example_ids :: "string list" where
  "example_ids = map Number_digits [0..<250]"

definition failing_env :: RequestEnv where
  "failing_env =
     \<lparr>fails = (\<lambda>k rq. if k = 1 then Some (Error ''batch 2 failed'') else None),
      latency = (\<lambda>k. 40), timer_late = (\<lambda>k. 0)\<rparr>"













section \<open>Auxiliary notions of the proofs\<close>

text \<open>The number of connecting shards of a collection.\<close>

definition ccount :: "(int, Shard) Collection \<Rightarrow> nat" where
  "ccount coll = length (filter connecting (map snd coll))"

text \<open>
  A step from client \<open>c\<close> with result \<open>r\<close> keeps the queue discipline: what it admitted
  from the queue, followed by the queue it leaves, is the queue it found followed by what
  it pushed.
\<close>

definition fifo_step :: "Client \<Rightarrow> Client \<times> action list \<Rightarrow> bool" where
  "fifo_step c r =
     (from_queue (snd r) @ connectQueue (fst r) = connectQueue c @ pushed (snd r))"

text \<open>
  In a sequence of requests, the \<open>k\<close>-th and following of a run, no request follows one
  that fails.
\<close>

fun stops_at_failure :: "RequestEnv \<Rightarrow> nat \<Rightarrow> request list \<Rightarrow> bool" where
  "stops_at_failure env k [] = True"
| "stops_at_failure env k (rq # rest) =
     (case fails env k rq of
        None \<Rightarrow> stops_at_failure env (Suc k) rest
      | Some err \<Rightarrow> rest = [])"

section \<open>Properties\<close>

subsection \<open>The permission guard of joinVoiceChannel\<close>

lemma permission_guard_zero:
  "\<not> bit voiceConnect 0 \<Longrightarrow> permission_guard voiceConnect allow = 0"
  unfolding permission_guard_def ToInt32_bool_def
  by (simp add: one_and_eq bit_0 mod_2_eq_odd)

lemma insufficient_permission_never:
  "\<not> bit voiceConnect 0 \<Longrightarrow> insufficient_permission voiceConnect ch c \<noteq> Returns True"
  by (simp add: insufficient_permission_def permission_guard_zero split: option.splits)

lemma VoiceConnectionManager_join_returns:
  "\<exists>r. VoiceConnectionManager_join key m = Returns r"
  by (simp add: VoiceConnectionManager_join_def split: option.splits)

text \<open>
  With a constant whose lowest bit is set the guard would be 1 for a channel that grants
  nothing: that the branch is dead rests on the constant being a flag other than bit 0.
\<close>

lemma permission_guard_odd_constant: "permission_guard 1 0 = 1"
  by (simp add: permission_guard_def ToInt32_bool_def js_not_def)

text \<open>
  C9. The insufficient-permission branch of \<open>joinVoiceChannel\<close> is unreachable: for every
  value of \<open>allow\<close> the guard \<open>!allow & voiceConnect\<close> is 0, because the negation is applied
  before the bitwise AND and yields 0 or 1, and the flag \<open>voiceConnect\<close> (a constant of the
  absent \<open>Constants\<close> module, here any 32-bit value whose bit 0 is clear) has no bit in
  common with 1; so for every channel, client and arguments \<open>joinVoiceChannel\<close> never
  rejects with "Insufficient permission to connect to voice channel".
\<close>

theorem joinVoiceChannel_permission_branch_dead:
  "\<not> bit voiceConnect 0 \<Longrightarrow>
     permission_guard voiceConnect allow = 0 \<and>
     fst (joinVoiceChannel voiceConnect channelID waitForReady c)
       \<noteq> Returns (Rejected (Error ''Insufficient permission to connect to voice channel''))"
  using VoiceConnectionManager_join_returns [of channelID "voiceConnections c"]
    insufficient_permission_never [of voiceConnect]
  by (auto simp: joinVoiceChannel_def permission_guard_zero
      split: completion.splits option.splits bool.splits prod.splits)

text \<open>
  The flag at the service's value \<open>1 << 20\<close>, on a guild channel that grants the user
  nothing.
\<close>

theorem joinVoiceChannel_permission_branch_dead_witness:
  "\<not> bit (1048576 :: 32 word) 0 \<and> permission_guard 1048576 0 = 0 \<and>
   fst (joinVoiceChannel 1048576 ''c1'' None example_client)
       \<noteq> Returns (Rejected (Error ''Insufficient permission to connect to voice channel''))"
  using joinVoiceChannel_permission_branch_dead [of 1048576 0 "''c1''" None example_client]
  by simp

subsection \<open>Joining a voice channel twice\<close>















subsection \<open>The connect queue\<close>


lemma connecting_count_ccount: "connecting_count c = ccount (shards c)"
  by (simp add: connecting_count_def ccount_def)

lemma find_None_ccount: "Collection_find connecting coll = None \<longleftrightarrow> ccount coll = 0"
  by (auto simp: Collection_find_def ccount_def find_None_iff filter_empty_conv)

lemma ccount_connect: "ccount (Collection_modify sid Shard_connect coll) \<le> Suc (ccount coll)"
  by (induction coll) (auto simp: ccount_def Shard_connect_def)

lemma ccount_settled: "ccount (Collection_modify sid Shard_settled coll) \<le> ccount coll"
  by (induction coll) (auto simp: ccount_def Shard_settled_def)

lemma ccount_new: "ccount (coll @ [(i, Shard_new)]) = ccount coll"
  by (simp add: ccount_def Shard_new_def)

lemma ccount_disconnect: "ccount (map (\<lambda>(k, sh). (k, Shard_disconnect sh)) coll) = 0"
  by (simp add: ccount_def Shard_disconnect_def filter_empty_conv split_beta)

lemma shards_tryConnect: "shards (tryConnect now c) = shards c"
  by (simp add: tryConnect_def split: option.splits)

lemma queueConnect_inv:
  "connecting_count c \<le> 1 \<Longrightarrow> connecting_count (fst (queueConnect now sid c)) \<le> 1"
  using ccount_connect [of sid "shards c"]
  by (auto simp: queueConnect_def connecting_count_ccount find_None_ccount shards_tryConnect)

lemma callback_inv:
  "connecting_count c \<le> 1 \<Longrightarrow> connecting_count (fst (connectTimeout_callback now c)) \<le> 1"
  using ccount_connect [of "hd (connectQueue c)" "shards c"]
  by (auto simp: connectTimeout_callback_def connecting_count_ccount find_None_ccount
      shards_tryConnect Let_def)

lemma connect_loop_inv:
  "connecting_count c \<le> 1 \<Longrightarrow> connecting_count (fst (connect_loop now ids c)) \<le> 1"
proof (induction ids arbitrary: c)
  case Nil
  then show ?case by simp
next
  case (Cons i rest)
  define c1 where "c1 = (case Collection_get (shards c) i of
                  None \<Rightarrow> c\<lparr>shards := shards c @ [(i, Shard_new)]\<rparr>
                | Some sh \<Rightarrow> c)"
  have "connecting_count c1 \<le> 1"
    using Cons.prems by (simp add: c1_def connecting_count_ccount ccount_new split: option.splits)
  then have "connecting_count (fst (queueConnect now i c1)) \<le> 1"
    by (rule queueConnect_inv)
  then have "connecting_count (fst (connect_loop now rest (fst (queueConnect now i c1)))) \<le> 1"
    by (rule Cons.IH)
  then show ?case
    by (simp add: c1_def case_prod_beta Let_def)
qed

lemma shards_getGateway: "shards (snd (getGateway_settled response c)) = shards c"
  by (simp add: getGateway_settled_def getGateway_def getGateway_answer_def getGateway_then_def
      Let_def split: option.splits sum.splits prod.splits)

lemma connect_inv:
  "connecting_count c \<le> 1 \<Longrightarrow> connecting_count (fst (snd (connect response now c))) \<le> 1"
proof -
  assume a: "connecting_count c \<le> 1"
  obtain p reqs c1 where g: "getGateway_settled response c = ((p, reqs), c1)"
    by (metis prod.exhaust)
  have "shards c1 = shards c" using shards_getGateway [of response c] g by simp
  then have i: "connecting_count c1 \<le> 1" using a by (simp add: connecting_count_def)
  show ?thesis
    using connect_loop_inv [OF i, of now "[firstShardID (options c1)..lastShardID (options c1)]"] i
    by (simp add: connect_def g case_prod_beta Let_def split: promise.splits)
qed

lemma exec_inv: "connecting_count c \<le> 1 \<Longrightarrow> connecting_count (fst (exec e c)) \<le> 1"
proof (cases e)
  case (Connect response now)
  assume "connecting_count c \<le> 1"
  from connect_inv [OF this, of response now] Connect show ?thesis
    by (simp add: case_prod_beta Let_def)
next
  case (QueueConnect now sid)
  assume "connecting_count c \<le> 1"
  from queueConnect_inv [OF this] QueueConnect show ?thesis by simp
next
  case (TimerFired now)
  assume "connecting_count c \<le> 1"
  from callback_inv [OF this, of now] this TimerFired show ?thesis
    by (simp split: option.splits)
next
  case (ShardSettled sid)
  assume "connecting_count c \<le> 1"
  with ccount_settled [of sid "shards c"] ShardSettled show ?thesis
    by (simp add: connecting_count_ccount)
next
  case Disconnect
  then show ?thesis
    by (simp add: disconnect_def connecting_count_ccount ccount_disconnect)
qed

lemma run_inv: "connecting_count c \<le> 1 \<Longrightarrow> connecting_count (fst (run es c)) \<le> 1"
proof (induction es arbitrary: c)
  case Nil
  then show ?case by simp
next
  case (Cons e es)
  from Cons.IH [OF exec_inv [OF Cons.prems, of e]] show ?case
    by (simp add: case_prod_beta Let_def)
qed

lemma Client_new_count: "connecting_count (Client_new opts) = 0"
  by (simp add: connecting_count_def Client_new_def)

lemma queueConnect_admits:
  "Admitted p s t \<in> set (snd (queueConnect now sid c)) \<Longrightarrow>
     Collection_find connecting (shards c) = None \<and> lastReadyPacket c + 5250 \<le> now"
  by (auto simp: queueConnect_def split: if_splits)

lemma callback_admits:
  "Admitted p s t \<in> set (snd (connectTimeout_callback now c)) \<Longrightarrow>
     Collection_find connecting (shards c) = None \<and> lastReadyPacket c + 5250 \<le> now"
  by (auto simp: connectTimeout_callback_def Let_def split: if_splits)

text \<open>
  C1. In every state a client reaches from its construction, by any sequence of calls of
  \<open>connect()\<close>, \<open>queueConnect\<close> and \<open>disconnect()\<close>, firings of the timer and ends of
  connection attempts, at most one shard of its collection has the \<open>connecting\<close> flag set;
  and \<open>queueConnect\<close> and the timer function of \<open>tryConnect\<close> call a shard's \<open>connect()\<close>
  only in a state where \<open>find\<close> meets no connecting shard in the collection.
\<close>

theorem at_most_one_shard_connecting:
  "connecting_count (fst (run events (Client_new opts))) \<le> 1 \<and>
   (Admitted p sid' t \<in> set (snd (queueConnect now sid c)) \<longrightarrow>
      Collection_find connecting (shards c) = None) \<and>
   (Admitted p' sid'' t' \<in> set (snd (connectTimeout_callback now' c')) \<longrightarrow>
      Collection_find connecting (shards c') = None)"
  using run_inv [of "Client_new opts" events] Client_new_count [of opts]
    queueConnect_admits callback_admits
  by auto


text \<open>
  The invariant after the run \<open>reconnect_events\<close>, and one admission by each path from the
  state that \<open>overtaking_events\<close> reaches.
\<close>

theorem at_most_one_shard_connecting_witness:
  "connecting_count (fst (run reconnect_events (Client_new example_options))) \<le> 1 \<and>
   Admitted Bypass 0 1500000000200
     \<in> set (snd (queueConnect 1500000000200 0
                   (fst (run overtaking_events (Client_new example_options))))) \<and>
   Collection_find connecting (shards (fst (run overtaking_events (Client_new example_options))))
     = None \<and>
   Admitted FromQueue 1 1500000005250
     \<in> set (snd (connectTimeout_callback 1500000005250
                   (fst (run overtaking_events (Client_new example_options)))))"
proof -
  have a: "Admitted Bypass 0 1500000000200
     \<in> set (snd (queueConnect 1500000000200 0
                   (fst (run overtaking_events (Client_new example_options)))))"
    by code_simp
  have b: "Admitted FromQueue 1 1500000005250
     \<in> set (snd (connectTimeout_callback 1500000005250
                   (fst (run overtaking_events (Client_new example_options)))))"
    by code_simp
  from at_most_one_shard_connecting [of reconnect_events example_options Bypass 0 1500000000200 1500000000200 0
      "fst (run overtaking_events (Client_new example_options))" FromQueue 1 1500000005250
      1500000005250 "fst (run overtaking_events (Client_new example_options))"] a b
  show ?thesis by blast
qed

subsection \<open>Spacing of admissions\<close>

text \<open>
  C3 as stated fails. The application calls \<open>connect()\<close>, then \<open>disconnect()\<close>, then
  \<open>connect()\<close> again 200 ms after the first call: shard 0 is admitted both times past the
  queue, 200 ms apart, and \<open>lastReadyPacket\<close> still holds 0, not an admission time.
\<close>

theorem admissions_closer_than_spacing:
  "admission_times (snd (run reconnect_events (Client_new example_options)))
     = [1500000000000, 1500000000200] \<and>
   \<not> spaced 5250 (admission_times (snd (run reconnect_events (Client_new example_options)))) \<and>
   lastReadyPacket (fst (run reconnect_events (Client_new example_options))) = 0"
  by code_simp

lemma lastReadyPacket_tryConnect: "lastReadyPacket (tryConnect now c) = lastReadyPacket c"
  by (simp add: tryConnect_def split: option.splits)

lemma connectQueue_tryConnect: "connectQueue (tryConnect now c) = connectQueue c"
  by (simp add: tryConnect_def split: option.splits)

text \<open>
  C3, amended. Every admission, whether it bypasses the queue or comes from it, is made at
  a time \<open>now\<close> with \<open>lastReadyPacket + 5250 \<le> now\<close>; an admission from the queue then
  advances \<open>lastReadyPacket\<close> by 5250, an admission that bypasses the queue leaves it
  unchanged. The client stores no admission time.
\<close>

theorem admission_gate:
  "(Admitted p s t \<in> set (snd (queueConnect now sid c)) \<longrightarrow>
      p = Bypass \<and> s = sid \<and> t = now \<and> lastReadyPacket c + 5250 \<le> now \<and>
      lastReadyPacket (fst (queueConnect now sid c)) = lastReadyPacket c) \<and>
   (Admitted p' s' t' \<in> set (snd (connectTimeout_callback now' c')) \<longrightarrow>
      p' = FromQueue \<and> s' = hd (connectQueue c') \<and> t' = now' \<and>
      lastReadyPacket c' + 5250 \<le> now' \<and>
      lastReadyPacket (fst (connectTimeout_callback now' c')) = lastReadyPacket c' + 5250)"
  by (auto simp: queueConnect_def connectTimeout_callback_def Let_def lastReadyPacket_tryConnect
      split: if_splits)

theorem admission_gate_witness:
  "Admitted Bypass 0 1500000000200
     \<in> set (snd (queueConnect 1500000000200 0
                   (fst (run overtaking_events (Client_new example_options))))) \<and>
   lastReadyPacket (fst (queueConnect 1500000000200 0
                   (fst (run overtaking_events (Client_new example_options))))) = 0 \<and>
   Admitted FromQueue 1 1500000005250
     \<in> set (snd (connectTimeout_callback 1500000005250
                   (fst (run overtaking_events (Client_new example_options))))) \<and>
   lastReadyPacket (fst (connectTimeout_callback 1500000005250
                   (fst (run overtaking_events (Client_new example_options))))) = 5250"
proof -
  have a: "Admitted Bypass 0 1500000000200
     \<in> set (snd (queueConnect 1500000000200 0
                   (fst (run overtaking_events (Client_new example_options)))))"
    by code_simp
  have b: "Admitted FromQueue 1 1500000005250
     \<in> set (snd (connectTimeout_callback 1500000005250
                   (fst (run overtaking_events (Client_new example_options)))))"
    by code_simp
  have l: "lastReadyPacket (fst (run overtaking_events (Client_new example_options))) = 0"
    by code_simp
  from admission_gate [of Bypass 0 1500000000200 1500000000200 0
      "fst (run overtaking_events (Client_new example_options))" FromQueue 1 1500000005250
      1500000005250 "fst (run overtaking_events (Client_new example_options))"] a b l
  show ?thesis by simp
qed

subsection \<open>Order of admissions\<close>

text \<open>
  C4 as stated fails. After \<open>connect()\<close> shard 0 is connecting and shard 1 waits in the
  queue; shard 0's attempt ends; 200 ms after the start shard 0 asks again: it is admitted
  at once although shard 1, which asked before, is still in the pending list.
\<close>

theorem bypass_overtakes_pending_shard:
  "connectQueue (fst (run overtaking_events (Client_new example_options))) = [1] \<and>
   snd (queueConnect 1500000000200 0 (fst (run overtaking_events (Client_new example_options))))
     = [Admitted Bypass 0 1500000000200] \<and>
   connectQueue (fst (queueConnect 1500000000200 0
                   (fst (run overtaking_events (Client_new example_options))))) = [1]"
  by code_simp

lemma from_queue_append: "from_queue (xs @ ys) = from_queue xs @ from_queue ys"
  by (induction xs rule: from_queue.induct) simp_all

lemma pushed_append: "pushed (xs @ ys) = pushed xs @ pushed ys"
  by (induction xs rule: pushed.induct) simp_all

lemma fifo_step_trans:
  assumes "fifo_step c (c1, l1)" and "fifo_step c1 (c2, l2)"
  shows "fifo_step c (c2, l1 @ l2)"
proof -
  have "from_queue (l1 @ l2) @ connectQueue c2 = from_queue l1 @ (connectQueue c1 @ pushed l2)"
    using assms(2) by (simp add: fifo_step_def from_queue_append)
  also have "\<dots> = (connectQueue c @ pushed l1) @ pushed l2"
    using assms(1) by (simp add: fifo_step_def)
  finally show ?thesis by (simp add: fifo_step_def pushed_append)
qed

lemma queueConnect_fifo: "fifo_step c (queueConnect now sid c)"
  by (simp add: fifo_step_def queueConnect_def connectQueue_tryConnect)

lemma callback_fifo: "fifo_step c (connectTimeout_callback now c)"
  by (cases "connectQueue c")
    (simp_all add: fifo_step_def connectTimeout_callback_def Let_def connectQueue_tryConnect)

lemma connect_loop_fifo: "fifo_step c (connect_loop now ids c)"
proof (induction ids arbitrary: c)
  case Nil
  show ?case by (simp add: fifo_step_def)
next
  case (Cons i rest)
  define c1 where "c1 = (case Collection_get (shards c) i of
                  None \<Rightarrow> c\<lparr>shards := shards c @ [(i, Shard_new)]\<rparr>
                | Some sh \<Rightarrow> c)"
  have q: "connectQueue c1 = connectQueue c"
    by (simp add: c1_def split: option.splits)
  obtain c2 l1 where s1: "queueConnect now i c1 = (c2, l1)" by (metis prod.exhaust)
  obtain c3 l2 where s2: "connect_loop now rest c2 = (c3, l2)" by (metis prod.exhaust)
  have "fifo_step c1 (c2, l1)" using queueConnect_fifo [of c1 now i] s1 by simp
  then have "fifo_step c (c2, l1)" by (simp add: fifo_step_def q)
  moreover have "fifo_step c2 (c3, l2)" using Cons.IH [of c2] s2 by simp
  ultimately have "fifo_step c (c3, l1 @ l2)" by (rule fifo_step_trans)
  then show ?case by (simp add: c1_def [symmetric] s1 s2)
qed

lemma connectQueue_getGateway:
  "connectQueue (snd (getGateway_settled response c)) = connectQueue c"
  by (simp add: getGateway_settled_def getGateway_def getGateway_answer_def getGateway_then_def
      Let_def split: option.splits sum.splits prod.splits)

lemma connect_fifo: "fifo_step c (snd (connect response now c))"
proof -
  obtain p reqs c1 where g: "getGateway_settled response c = ((p, reqs), c1)"
    by (metis prod.exhaust)
  have q: "connectQueue c1 = connectQueue c" using connectQueue_getGateway [of response c] g by simp
  have "fifo_step c1 (connect_loop now [firstShardID (options c1)..lastShardID (options c1)] c1)"
    by (rule connect_loop_fifo)
  then have "fifo_step c (connect_loop now [firstShardID (options c1)..lastShardID (options c1)] c1)"
    by (simp add: fifo_step_def q)
  then show ?thesis
    by (cases p) (simp_all add: connect_def g case_prod_beta Let_def fifo_step_def q)
qed

lemma exec_fifo: "e \<noteq> Disconnect \<Longrightarrow> fifo_step c (exec e c)"
proof (cases e)
  case (Connect response now)
  with connect_fifo [of c response now] show ?thesis by (simp add: case_prod_beta fifo_step_def)
next
  case (QueueConnect now sid)
  with queueConnect_fifo show ?thesis by simp
next
  case (TimerFired now)
  with callback_fifo [of c now] show ?thesis
    by (simp add: fifo_step_def split: option.splits)
next
  case (ShardSettled sid)
  then show ?thesis by (simp add: fifo_step_def)
next
  case Disconnect
  assume "e \<noteq> Disconnect"
  with Disconnect show ?thesis by simp
qed

lemma run_fifo: "Disconnect \<notin> set es \<Longrightarrow> fifo_step c (run es c)"
proof (induction es arbitrary: c)
  case Nil
  show ?case by (simp add: fifo_step_def)
next
  case (Cons e es)
  obtain c1 l1 where s1: "exec e c = (c1, l1)" by (metis prod.exhaust)
  obtain c2 l2 where s2: "run es c1 = (c2, l2)" by (metis prod.exhaust)
  from Cons.prems have ne: "e \<noteq> Disconnect" and rest: "Disconnect \<notin> set es" by auto
  have "fifo_step c (c1, l1)" using exec_fifo [OF ne, of c] s1 by simp
  moreover have "fifo_step c1 (c2, l2)" using Cons.IH [OF rest, of c1] s2 by simp
  ultimately have "fifo_step c (c2, l1 @ l2)" by (rule fifo_step_trans)
  then show ?case by (simp add: s1 s2)
qed

text \<open>
  C4, amended. The pending list itself is first-in first-out: over any run without
  \<open>disconnect()\<close>, the shards admitted from the queue, in order, followed by the shards
  still waiting, are the shards that waited at the start followed by the shards pushed
  during the run, in order. A request bypasses the list exactly when
  \<open>lastReadyPacket \<le> now - 5250\<close> and no shard is connecting, whatever the list holds;
  any other request is appended at the tail.
\<close>

theorem pending_list_fifo:
  "(Disconnect \<notin> set events \<longrightarrow>
      from_queue (snd (run events c)) @ connectQueue (fst (run events c))
        = connectQueue c @ pushed (snd (run events c))) \<and>
   (Admitted Bypass sid now \<in> set (snd (queueConnect now sid c')) \<longleftrightarrow>
      lastReadyPacket c' \<le> now - 5250 \<and> Collection_find connecting (shards c') = None) \<and>
   (Admitted Bypass sid now \<notin> set (snd (queueConnect now sid c')) \<longrightarrow>
      connectQueue (fst (queueConnect now sid c')) = connectQueue c' @ [sid])"
  using run_fifo [of events c]
  by (auto simp: fifo_step_def queueConnect_def connectQueue_tryConnect)

theorem pending_list_fifo_witness:
  "Disconnect \<notin> set fifo_events \<and>
   from_queue (snd (run fifo_events (Client_new example_options)))
     @ connectQueue (fst (run fifo_events (Client_new example_options)))
     = connectQueue (Client_new example_options)
       @ pushed (snd (run fifo_events (Client_new example_options))) \<and>
   from_queue (snd (run fifo_events (Client_new example_options))) = [1] \<and>
   Admitted Bypass 0 1500000006000
     \<notin> set (snd (queueConnect 1500000006000 0 (fst (run fifo_events (Client_new example_options))))) \<and>
   connectQueue (fst (queueConnect 1500000006000 0 (fst (run fifo_events (Client_new example_options)))))
     = connectQueue (fst (run fifo_events (Client_new example_options))) @ [0]"
proof -
  have a: "Disconnect \<notin> set fifo_events" by (simp add: fifo_events_def)
  have b: "from_queue (snd (run fifo_events (Client_new example_options))) = [1]" by code_simp
  have d: "Admitted Bypass 0 1500000006000
     \<notin> set (snd (queueConnect 1500000006000 0 (fst (run fifo_events (Client_new example_options)))))"
    by code_simp
  from pending_list_fifo [of fifo_events "Client_new example_options" 0 1500000006000
      "fst (run fifo_events (Client_new example_options))"] a b d
  show ?thesis by simp
qed

subsection \<open>getGateway\<close>



lemma getGateway_empty:
  "gatewayURL c = None \<Longrightarrow> getGateway c = (Gateway_pending gateway_request, [gateway_request])"
  by (simp add: getGateway_def)









subsection \<open>createMessage\<close>

lemma js_get_js_set: "js_get (js_set n v ps) n = v"
  by (induction ps) (auto simp: js_get_def)

lemma js_get_single: "js_get [(n, v)] n = v"
  by (simp add: js_get_def)

lemma typeof_string: "typeof v = ''string'' \<longleftrightarrow> (\<exists>s. v = JString s)"
  by (cases v) auto

lemma normalize_content_string:
  assumes "normalize_content c = Returns obj"
  shows "\<exists>s. js_get obj ''content'' = JString s"
proof (cases c)
  case (JObject ps)
  with assms show ?thesis
    by (auto simp: normalize_content_def js_get_js_set js_get_single typeof_string
        split: if_splits)
qed (use assms in \<open>auto simp: normalize_content_def js_get_single\<close>)

lemma createMessage_rejects:
  assumes "normalize_content c = Returns obj"
    and "ToString (js_get obj ''content'') = [] \<and> file = None"
  shows "createMessage channelID c file cl = (Returns (Rejected (Error ''No content or file'')), [])"
  using assms normalize_content_string [of c obj]
  by (auto simp: createMessage_def)

lemma createMessage_requests:
  assumes "normalize_content c = Returns obj"
    and "\<not> (ToString (js_get obj ''content'') = [] \<and> file = None)"
  shows "\<exists>rq. createMessage channelID c file cl = (Returns (Pending rq), [rq]) \<and>
           req_method rq = ''POST'' \<and> req_endpoint rq = CHANNEL_MESSAGES channelID \<and>
           req_file rq = file"
  using assms normalize_content_string [of c obj]
  by (auto simp: createMessage_def Let_def)

text \<open>
  C10. Whenever the \<open>content\<close> argument can be normalized (it is not \<open>null\<close>), the
  normalized \<open>content\<close> property is a string; if that string is empty and no file is
  supplied, \<open>createMessage\<close> returns a promise rejected with "No content or file" and
  issues no request; otherwise it issues exactly one request, a POST to the channel's
  messages endpoint carrying the file argument, and returns the promise of its answer.
\<close>

theorem createMessage_no_content_or_file:
  "normalize_content c = Returns obj \<Longrightarrow>
     (\<exists>s. js_get obj ''content'' = JString s) \<and>
     (ToString (js_get obj ''content'') = [] \<and> file = None \<longrightarrow>
        createMessage channelID c file cl
          = (Returns (Rejected (Error ''No content or file'')), [])) \<and>
     (\<not> (ToString (js_get obj ''content'') = [] \<and> file = None) \<longrightarrow>
        (\<exists>rq. createMessage channelID c file cl = (Returns (Pending rq), [rq]) \<and>
           req_method rq = ''POST'' \<and> req_endpoint rq = CHANNEL_MESSAGES channelID \<and>
           req_file rq = file))"
  using normalize_content_string [of c obj] createMessage_rejects [of c obj "file" channelID cl]
    createMessage_requests [of c obj "file" channelID cl]
  by blast

text \<open>For \<open>null\<close> the normalization throws: there is neither a rejection nor a request.\<close>

lemma createMessage_null:
  "createMessage channelID JNull file cl
     = (Throws (TypeError ''Cannot read property content of null''), [])"
  by (simp add: createMessage_def normalize_content_def)

text \<open>
  The empty string without a file is rejected; the number 0 is not: it is normalized to
  the string "0", which is sent.
\<close>

theorem createMessage_no_content_or_file_witness:
  "normalize_content (JString []) = Returns [(''content'', JString [])] \<and>
   ToString (js_get [(''content'', JString [])] ''content'') = [] \<and>
   createMessage ''c1'' (JString []) None example_client
     = (Returns (Rejected (Error ''No content or file'')), []) \<and>
   normalize_content (JNumber 0) = Returns [(''content'', JString ''0'')] \<and>
   ToString (js_get [(''content'', JString ''0'')] ''content'') \<noteq> [] \<and>
   (\<exists>rq. createMessage ''c1'' (JNumber 0) None example_client = (Returns (Pending rq), [rq]) \<and>
      req_method rq = ''POST'' \<and> req_endpoint rq = CHANNEL_MESSAGES ''c1'' \<and> req_file rq = None)"
proof -
  have a: "normalize_content (JString []) = Returns [(''content'', JString [])]"
    by (simp add: normalize_content_def)
  have b: "normalize_content (JNumber 0) = Returns [(''content'', JString ''0'')]"
    by code_simp
  have e: "ToString (js_get [(''content'', JString [])] ''content'') = []"
    and n: "ToString (js_get [(''content'', JString ''0'')] ''content'') \<noteq> []"
    by (simp_all add: js_get_single)
  from createMessage_no_content_or_file [OF a, of None "''c1''" example_client]
    createMessage_no_content_or_file [OF b, of None "''c1''" example_client] a b e n
  show ?thesis by blast
qed

subsection \<open>deleteMessages\<close>

declare deleteMessages.simps [simp del]

lemma request_ids_bulk: "request_ids (bulk_delete ch ids) = ids"
  by (simp add: request_ids_def bulk_delete_def)





lemma deleteMessages_large_fail:
  "100 < length ids \<Longrightarrow> fails env k (bulk_delete ch (take 100 ids)) = Some err \<Longrightarrow>
     deleteMessages env k now ch ids = (Rejected err, [(now, bulk_delete ch (take 100 ids))])"
  by (subst deleteMessages.simps) auto

lemma deleteMessages_large_ok:
  "100 < length ids \<Longrightarrow> fails env k (bulk_delete ch (take 100 ids)) = None \<Longrightarrow>
     deleteMessages env k now ch ids
       = (Resolved (),
          (now, bulk_delete ch (take 100 ids)) #
          snd (deleteMessages env (Suc k) (now + int (latency env k) + 1000 + int (timer_late env k))
                 ch (drop 100 ids)))"
  by (subst deleteMessages.simps) (auto simp: Let_def)








lemma sent_stops:
  "stops_at_failure env k (map snd (snd (deleteMessages env k now ch ids)))"
proof (induction env k now ch ids rule: deleteMessages.induct)
  case (1 env k now ch ids)
  show ?case
  proof (cases "100 < length ids")
    case True
    show ?thesis
    proof (cases "fails env k (bulk_delete ch (take 100 ids))")
      case None
      have "stops_at_failure env (Suc k)
          (map snd (snd (deleteMessages env (Suc k)
             (now + int (latency env k) + 1000 + int (timer_late env k)) ch (drop 100 ids))))"
        by (rule 1) (use True None in auto)
      with True None show ?thesis by (simp add: deleteMessages_large_ok)
    next
      case (Some err)
      with True show ?thesis by (simp add: deleteMessages_large_fail)
    qed
  next
    case False
    then show ?thesis
      by (subst deleteMessages.simps)
        (simp add: deleteMessage_def split: option.splits)
  qed
qed

lemma caller_promise:
  "fst (deleteMessages env k now ch ids)
     = (case snd (deleteMessages env k now ch ids) of
          [] \<Rightarrow> Resolved ()
        | (t, rq) # rest \<Rightarrow> request_result env k rq)"
  by (subst (1 2) deleteMessages.simps)
    (simp add: deleteMessage_def request_result_def Let_def split: option.splits)

lemma batch2_fails:
  assumes "length ids = 250"
    and "fails env k (bulk_delete ch (take 100 ids)) = None"
    and "fails env (Suc k) (bulk_delete ch (take 100 (drop 100 ids))) = Some err"
  shows "deleteMessages env k now ch ids
     = (Resolved (),
        [(now, bulk_delete ch (take 100 ids)),
         (now + int (latency env k) + 1000 + int (timer_late env k),
          bulk_delete ch (take 100 (drop 100 ids)))])"
  using assms
  by (simp add: deleteMessages_large_ok deleteMessages_large_fail)

lemma first_failure_rejects:
  assumes "snd (deleteMessages env k now ch ids) = (t, rq) # rest"
    and "fails env k rq = Some err"
  shows "fst (deleteMessages env k now ch ids) = Rejected err \<and> rest = []"
proof -
  have "fst (deleteMessages env k now ch ids) = request_result env k rq"
    using caller_promise [of env k now ch ids] assms(1) by simp
  moreover have "stops_at_failure env k (rq # map snd rest)"
    using sent_stops [of env k now ch ids] assms(1) by simp
  ultimately show ?thesis using assms(2) by (simp add: request_result_def)
qed

lemma batch2_fails_sent:
  assumes "length ids = 250"
    and "fails env k (bulk_delete ch (take 100 ids)) = None"
    and "fails env (Suc k) (bulk_delete ch (take 100 (drop 100 ids))) = Some err"
  shows "snd (deleteMessages env k now ch ids)
     = [(now, bulk_delete ch (take 100 ids)),
        (now + int (latency env k) + 1000 + int (timer_late env k),
         bulk_delete ch (take 100 (drop 100 ids)))]"
  using batch2_fails [OF assms] by simp

text \<open>
  C2, amended. No request is sent after one that fails, whichever batch it is. When the
  first request fails, the promise returned to the caller is rejected with the error of
  that request. A promise of \<open>deleteMessages\<close> carries no count of deleted messages. For 250
  IDs with the second batch failing, the two batches of 100 are sent and the third batch
  is never sent.
\<close>

theorem deleteMessages_failure:
  "stops_at_failure env k (map snd (snd (deleteMessages env k now ch ids))) \<and>
   (snd (deleteMessages env1 k1 now1 ch1 ids1) = (t, rq) # rest \<and> fails env1 k1 rq = Some err1 \<longrightarrow>
      fst (deleteMessages env1 k1 now1 ch1 ids1) = Rejected err1 \<and> rest = []) \<and>
   (length ids2 = 250 \<and> fails env2 k2 (bulk_delete ch2 (take 100 ids2)) = None
      \<and> fails env2 (Suc k2) (bulk_delete ch2 (take 100 (drop 100 ids2))) = Some err2 \<longrightarrow>
      snd (deleteMessages env2 k2 now2 ch2 ids2)
        = [(now2, bulk_delete ch2 (take 100 ids2)),
           (now2 + int (latency env2 k2) + 1000 + int (timer_late env2 k2),
            bulk_delete ch2 (take 100 (drop 100 ids2)))])"
  using sent_stops [of env k now ch ids]
    first_failure_rejects [of env1 k1 now1 ch1 ids1 t rq rest err1]
    batch2_fails_sent [of ids2 env2 k2 ch2 err2 now2]
  by blast

lemma failing_env_fails:
  "fails failing_env 0 rq = None" "fails failing_env (Suc 0) rq = Some (Error ''batch 2 failed'')"
  by (simp_all add: failing_env_def)

lemma length_example_ids: "length example_ids = 250"
  by (simp add: example_ids_def)

text \<open>
  C2 as stated fails. With 250 IDs and a failing second batch the promise returned to the
  caller is resolved: it does not carry the error of batch 2, and nothing reports that 100
  messages were deleted. (Batch 3 is indeed not sent.)
\<close>

theorem deleteMessages_error_not_surfaced:
  "fst (deleteMessages failing_env 0 0 ''c1'' example_ids) = Resolved () \<and>
   fst (deleteMessages failing_env 0 0 ''c1'' example_ids) \<noteq> Rejected (Error ''batch 2 failed'') \<and>
   map (\<lambda>(t, rq). length (request_ids rq)) (snd (deleteMessages failing_env 0 0 ''c1'' example_ids))
     = [100, 100]"
  using batch2_fails [of example_ids failing_env 0 "''c1''" "Error ''batch 2 failed''" 0]
  by (simp add: request_ids_bulk length_example_ids failing_env_fails)

text \<open>
  The 250 IDs of the example against the service whose second request fails: called
  first, and called when one request has been sent before, so that its first request is
  the one that fails.
\<close>

theorem deleteMessages_failure_witness:
  "length example_ids = 250 \<and>
   fails failing_env 0 (bulk_delete ''c1'' (take 100 example_ids)) = None \<and>
   fails failing_env (Suc 0) (bulk_delete ''c1'' (take 100 (drop 100 example_ids)))
     = Some (Error ''batch 2 failed'') \<and>
   stops_at_failure failing_env 0 (map snd (snd (deleteMessages failing_env 0 0 ''c1'' example_ids))) \<and>
   snd (deleteMessages failing_env 0 0 ''c1'' example_ids)
     = [(0, bulk_delete ''c1'' (take 100 example_ids)),
        (1040, bulk_delete ''c1'' (take 100 (drop 100 example_ids)))] \<and>
   snd (deleteMessages failing_env (Suc 0) 0 ''c1'' example_ids)
     = [(0, bulk_delete ''c1'' (take 100 example_ids))] \<and>
   fails failing_env (Suc 0) (bulk_delete ''c1'' (take 100 example_ids))
     = Some (Error ''batch 2 failed'') \<and>
   fst (deleteMessages failing_env (Suc 0) 0 ''c1'' example_ids)
     = Rejected (Error ''batch 2 failed'')"
proof -
  have l: "latency failing_env 0 = 40" "timer_late failing_env 0 = 0"
    by (simp_all add: failing_env_def)
  have s1: "snd (deleteMessages failing_env (Suc 0) 0 ''c1'' example_ids)
      = (0, bulk_delete ''c1'' (take 100 example_ids)) # []"
    using deleteMessages_large_fail
      [of example_ids failing_env "Suc 0" "''c1''" "Error ''batch 2 failed''" 0]
    by (simp add: length_example_ids failing_env_fails)
  note x = deleteMessages_failure
    [of failing_env 0 0 "''c1''" example_ids failing_env "Suc 0" 0 "''c1''" example_ids 0
      "bulk_delete ''c1'' (take 100 example_ids)" "[]" "Error ''batch 2 failed''"
      example_ids failing_env 0 "''c1''" "Error ''batch 2 failed''" 0]
  from x have f1: "stops_at_failure failing_env 0
      (map snd (snd (deleteMessages failing_env 0 0 ''c1'' example_ids)))"
    by blast
  from x s1 failing_env_fails(2)
  have f2: "fst (deleteMessages failing_env (Suc 0) 0 ''c1'' example_ids)
      = Rejected (Error ''batch 2 failed'')"
    by blast
  from x length_example_ids failing_env_fails
  have "snd (deleteMessages failing_env 0 0 ''c1'' example_ids)
     = [(0, bulk_delete ''c1'' (take 100 example_ids)),
        (0 + int (latency failing_env 0) + 1000 + int (timer_late failing_env 0),
         bulk_delete ''c1'' (take 100 (drop 100 example_ids)))]"
    by blast
  then have f3: "snd (deleteMessages failing_env 0 0 ''c1'' example_ids)
     = [(0, bulk_delete ''c1'' (take 100 example_ids)),
        (1040, bulk_delete ''c1'' (take 100 (drop 100 example_ids)))]"
    by (simp add: l)
  from f1 f2 f3 s1 length_example_ids failing_env_fails show ?thesis by blast
qed


subsection \<open>Adding an entity twice\<close>















end
